theory Spec2Isabelle
  imports Complex_Main "HOL-Library.Log_Nat" "HOL-Library.Sublist"
begin

section \<open>JavaScript values used by the book controllers\<close>

text \<open>
  The controllers of \<^verbatim>\<open>src/controller/books-controller.js\<close> never check the type of a
  payload field, so a field holds whatever JSON value the client sent, or \<^verbatim>\<open>undefined\<close>
  when the key is absent. The values covered here are the scalars: \<^verbatim>\<open>null\<close>, booleans,
  numbers and strings (an array or an object as the value of a field is not covered).
  Numbers are IEEE doubles; a finite double is carried by its exact rational value. The sign
  of zero is left out: \<^verbatim>\<open><\<close>, \<^verbatim>\<open>===\<close> and \<^verbatim>\<open>!!\<close>, the only operators the controllers
  apply to a number, do not see it. Strings are sequences of code units below 256.
\<close>

datatype jsnum = NaN | Fin rat | PosInf | NegInf

datatype jsval = Undefined | Null | JBool bool | JNum jsnum | JStr string

subsection \<open>Rounding a decimal literal to a double\<close>

definition pow2 :: "int \<Rightarrow> rat" where
  "pow2 k = (if 0 \<le> k then 2 ^ nat k else 1 / 2 ^ nat (- k))"

text \<open>For positive \<open>p\<close> and \<open>d\<close>, the exponent \<open>k\<close> with \<open>2^k \<le> p / d < 2^(k+1)\<close>.\<close>

definition floorLog2 :: "int \<Rightarrow> int \<Rightarrow> int" where
  "floorLog2 p d =
     (let k = bitlen p - bitlen d
      in if (if 0 \<le> k then d * 2 ^ nat k \<le> p else d \<le> p * 2 ^ nat (- k)) then k else k - 1)"

definition roundTiesToEven :: "int \<Rightarrow> int \<Rightarrow> int" where
  "roundTiesToEven a b =
     (let q = a div b; r = a mod b
      in if 2 * r < b \<or> (2 * r = b \<and> even q) then q else q + 1)"

text \<open>
  The double nearest to \<open>p / d\<close> (\<open>0 \<le> p\<close>, \<open>0 < d\<close>): 53 significant bits, exponent
  at least \<open>-1022\<close> (below that the spacing stays \<open>2^-1074\<close>, so tiny values round to
  zero), and overflow to infinity from \<open>2^1024\<close> on.
\<close>

definition roundToDouble :: "int \<Rightarrow> int \<Rightarrow> jsnum" where
  "roundToDouble p d =
     (if p = 0 then Fin 0
      else let e = max (floorLog2 p d) (- 1022) - 52;
               n = (if 0 \<le> e then roundTiesToEven p (d * 2 ^ nat e)
                    else roundTiesToEven (p * 2 ^ nat (- e)) d)
           in if e = 971 \<and> n = 2 ^ 53 \<or> 971 < e then PosInf else Fin (of_int n * pow2 e))"

fun negate :: "jsnum \<Rightarrow> jsnum" where
  "negate NaN = NaN"
| "negate (Fin q) = Fin (- q)"
| "negate PosInf = NegInf"
| "negate NegInf = PosInf"

subsection \<open>\<^verbatim>\<open>Number(string)\<close>: the StringNumericLiteral grammar\<close>

definition isStrWhiteSpaceChar :: "char \<Rightarrow> bool" where
  "isStrWhiteSpaceChar c = ((of_char c :: nat) \<in> {9, 10, 11, 12, 13, 32, 160})"

definition isDecimalDigit :: "char \<Rightarrow> bool" where
  "isDecimalDigit c = (48 \<le> (of_char c :: nat) \<and> (of_char c :: nat) \<le> 57)"

definition digitValue :: "char \<Rightarrow> int option" where
  "digitValue c =
     (let n = (of_char c :: nat)
      in if 48 \<le> n \<and> n \<le> 57 then Some (int n - 48)
         else if 97 \<le> n \<and> n \<le> 102 then Some (int n - 87)
         else if 65 \<le> n \<and> n \<le> 70 then Some (int n - 55)
         else None)"

definition isDigitOfBase :: "int \<Rightarrow> char \<Rightarrow> bool" where
  "isDigitOfBase b c = (case digitValue c of None \<Rightarrow> False | Some v \<Rightarrow> v < b)"

definition digitsMV :: "int \<Rightarrow> string \<Rightarrow> int" where
  "digitsMV b ds = foldl (\<lambda>a c. a * b + (case digitValue c of None \<Rightarrow> 0 | Some v \<Rightarrow> v)) 0 ds"

definition trimString :: "string \<Rightarrow> string" where
  "trimString s = rev (dropWhile isStrWhiteSpaceChar (rev (dropWhile isStrWhiteSpaceChar s)))"

text \<open>\<^verbatim>\<open>0b\<close>, \<^verbatim>\<open>0o\<close>, \<^verbatim>\<open>0x\<close> literals (either case of the letter), unsigned.\<close>

definition NonDecimalIntegerLiteral :: "string \<Rightarrow> int option" where
  "NonDecimalIntegerLiteral s =
     (case s of
        z # x # ds \<Rightarrow>
          (let b = (if x = CHR ''b'' \<or> x = CHR ''B'' then 2
                    else if x = CHR ''o'' \<or> x = CHR ''O'' then 8
                    else if x = CHR ''x'' \<or> x = CHR ''X'' then 16 else (0::int))
           in if z = CHR ''0'' \<and> b \<noteq> 0 \<and> ds \<noteq> [] \<and> list_all (isDigitOfBase b) ds
              then Some (digitsMV b ds) else None)
      | _ \<Rightarrow> None)"

text \<open>An optional sign followed by one or more decimal digits, up to the end of the string.\<close>

definition SignedInteger :: "string \<Rightarrow> int option" where
  "SignedInteger s =
     (let neg = (case s of c # _ \<Rightarrow> c = CHR ''-'' | [] \<Rightarrow> False);
          ds = (case s of c # t \<Rightarrow> if c = CHR ''+'' \<or> c = CHR ''-'' then t else s | [] \<Rightarrow> s)
      in if ds \<noteq> [] \<and> list_all isDecimalDigit ds
         then Some (if neg then - digitsMV 10 ds else digitsMV 10 ds) else None)"

text \<open>What may follow the mantissa: nothing, or \<^verbatim>\<open>e\<close>/\<^verbatim>\<open>E\<close> and a signed integer.\<close>

definition ExponentPart :: "string \<Rightarrow> int option" where
  "ExponentPart s =
     (case s of
        [] \<Rightarrow> Some 0
      | c # t \<Rightarrow> if c = CHR ''e'' \<or> c = CHR ''E'' then SignedInteger t else None)"

text \<open>
  Digits, an optional point with optional digits, an optional exponent; at least one digit
  before or after the point. The value \<open>m * 10^x\<close> is rounded once, as a fraction of integers.
\<close>

definition StrUnsignedDecimalLiteral :: "string \<Rightarrow> jsnum" where
  "StrUnsignedDecimalLiteral s =
     (if s = ''Infinity'' then PosInf
      else let ip = takeWhile isDecimalDigit s;
               r = dropWhile isDecimalDigit s;
               dot = (case r of c # _ \<Rightarrow> c = CHR ''.'' | [] \<Rightarrow> False);
               fp = (if dot then takeWhile isDecimalDigit (tl r) else []);
               r' = (if dot then dropWhile isDecimalDigit (tl r) else r)
           in if ip = [] \<and> fp = [] then NaN
              else case ExponentPart r' of
                     None \<Rightarrow> NaN
                   | Some x \<Rightarrow>
                       (let m = digitsMV 10 (ip @ fp); x' = x - int (length fp)
                        in if 0 \<le> x' then roundToDouble (m * 10 ^ nat x') 1
                           else roundToDouble m (10 ^ nat (- x'))))"

definition StrDecimalLiteral :: "string \<Rightarrow> jsnum" where
  "StrDecimalLiteral s =
     (case s of
        c # t \<Rightarrow> if c = CHR ''+'' then StrUnsignedDecimalLiteral t
                 else if c = CHR ''-'' then negate (StrUnsignedDecimalLiteral t)
                 else StrUnsignedDecimalLiteral s
      | [] \<Rightarrow> NaN)"

text \<open>\<^verbatim>\<open>Number(s)\<close> for a string: white space is trimmed, the empty string is \<open>0\<close>,
  anything outside the grammar is \<open>NaN\<close>.\<close>

definition StringToNumber :: "string \<Rightarrow> jsnum" where
  "StringToNumber s =
     (let t = trimString s
      in if t = [] then Fin 0
         else case NonDecimalIntegerLiteral t of
                Some n \<Rightarrow> roundToDouble n 1
              | None \<Rightarrow> StrDecimalLiteral t)"

subsection \<open>Coercions and operators\<close>

fun ToNumber :: "jsval \<Rightarrow> jsnum" where
  "ToNumber Undefined = NaN"
| "ToNumber Null = Fin 0"
| "ToNumber (JBool b) = (if b then Fin 1 else Fin 0)"
| "ToNumber (JNum n) = n"
| "ToNumber (JStr s) = StringToNumber s"

text \<open>\<^verbatim>\<open>!!n\<close> for a number: false exactly for \<open>NaN\<close> and zero.\<close>

fun ToBoolean :: "jsnum \<Rightarrow> bool" where
  "ToBoolean NaN = False"
| "ToBoolean (Fin q) = (q \<noteq> 0)"
| "ToBoolean PosInf = True"
| "ToBoolean NegInf = True"

fun numLessThan :: "jsnum \<Rightarrow> jsnum \<Rightarrow> bool" where
  "numLessThan NaN _ = False"
| "numLessThan _ NaN = False"
| "numLessThan (Fin a) (Fin b) = (a < b)"
| "numLessThan (Fin a) PosInf = True"
| "numLessThan (Fin a) NegInf = False"
| "numLessThan PosInf _ = False"
| "numLessThan NegInf NegInf = False"
| "numLessThan NegInf _ = True"

text \<open>Strings compare by code units: a proper prefix is smaller, otherwise the first
  difference decides.\<close>

fun strLessThan :: "string \<Rightarrow> string \<Rightarrow> bool" where
  "strLessThan _ [] = False"
| "strLessThan [] (_ # _) = True"
| "strLessThan (a # x) (b # y) =
     (if a = b then strLessThan x y else (of_char a :: nat) < of_char b)"

text \<open>\<^verbatim>\<open>x < y\<close>: two strings compare as strings, every other pair as numbers.\<close>

fun IsLessThan :: "jsval \<Rightarrow> jsval \<Rightarrow> bool" where
  "IsLessThan (JStr x) (JStr y) = strLessThan x y"
| "IsLessThan x y = numLessThan (ToNumber x) (ToNumber y)"

text \<open>\<^verbatim>\<open>x === y\<close>: same type and same value; \<open>NaN\<close> equals nothing.\<close>

fun IsStrictlyEqual :: "jsval \<Rightarrow> jsval \<Rightarrow> bool" where
  "IsStrictlyEqual Undefined Undefined = True"
| "IsStrictlyEqual Null Null = True"
| "IsStrictlyEqual (JBool a) (JBool b) = (a = b)"
| "IsStrictlyEqual (JNum a) (JNum b) = (a \<noteq> NaN \<and> a = b)"
| "IsStrictlyEqual (JStr a) (JStr b) = (a = b)"
| "IsStrictlyEqual _ _ = False"

text \<open>\<^verbatim>\<open>toLowerCase\<close> on code units below 256: \<open>A\<close>-\<open>Z\<close> and the accented capitals
  \<open>0xC0\<close>-\<open>0xDE\<close> (without the multiplication sign \<open>0xD7\<close>) move up by 32.\<close>

definition lowerChar :: "char \<Rightarrow> char" where
  "lowerChar c =
     (let n = (of_char c :: nat)
      in if (65 \<le> n \<and> n \<le> 90) \<or> (192 \<le> n \<and> n \<le> 222 \<and> n \<noteq> 215)
         then char_of (n + 32) else c)"

definition toLowerCase :: "string \<Rightarrow> string" where
  "toLowerCase s = map lowerChar s"

text \<open>\<^verbatim>\<open>s.includes(t)\<close>: \<open>t\<close> occurs in \<open>s\<close> as a contiguous run.\<close>

fun includesStr :: "string \<Rightarrow> string \<Rightarrow> bool" where
  "includesStr [] t = (t = [])"
| "includesStr (c # s) t = (prefix t (c # s) \<or> includesStr s t)"

section \<open>The book collection and the five controllers\<close>

text \<open>
  When the request has a body, \<^verbatim>\<open>request.payload\<close> is the parsed JSON value; the writing
  controllers read eight keys from it, and a key that is absent reads as \<^verbatim>\<open>undefined\<close>.
  When the request has no body, \<^verbatim>\<open>request.payload\<close> is \<^verbatim>\<open>null\<close>, and reading a key from
  it throws. So a controller receives a \<open>payload option\<close>, with \<open>None\<close> for \<^verbatim>\<open>null\<close>.
  A stored book has the same eight keys and four more that the server sets.
\<close>

record payload =
  name :: jsval
  year :: jsval
  author :: jsval
  summary :: jsval
  publisher :: jsval
  pageCount :: jsval
  readPage :: jsval
  reading :: jsval

record book = payload +
  id' :: string
  finished :: bool
  insertedAt :: string
  updatedAt :: string

text \<open>
  The query of \<^verbatim>\<open>GET /books\<close>. A parameter is absent, or a string, or, when its key is
  repeated in the URL (\<^verbatim>\<open>?name=a&name=b\<close>), the array of the strings given.
\<close>

datatype queryValue = QString string | QArray "string list"

record query =
  nameQuery :: "queryValue option"
  readingQuery :: "queryValue option"
  finishedQuery :: "queryValue option"

text \<open>\<^verbatim>\<open>Array.prototype.join(",")\<close>, which is what converting an array of strings to a
  primitive yields.\<close>

fun joinComma :: "string list \<Rightarrow> string" where
  "joinComma [] = []"
| "joinComma [x] = x"
| "joinComma (x # y # ys) = x @ '','' @ joinComma (y # ys)"

text \<open>\<^verbatim>\<open>Number(v)\<close> for a query value.\<close>

fun queryToNumber :: "queryValue \<Rightarrow> jsnum" where
  "queryToNumber (QString s) = StringToNumber s"
| "queryToNumber (QArray ss) = StringToNumber (joinComma ss)"

text \<open>One entry of the list response: \<^verbatim>\<open>{ id, name, publisher }\<close>.\<close>

record bookSummary =
  summaryId :: string
  summaryName :: jsval
  summaryPublisher :: jsval

datatype js_error = TypeError

text \<open>A message is a literal of the source or the \<^verbatim>\<open>err.message\<close> of a caught error.\<close>

datatype message = Msg string | ErrMessage js_error

datatype data = BookId string | Books "bookSummary list" | Book book

record response =
  code :: nat
  status :: string
  message :: "message option"
  data :: "data option"

definition fail :: "nat \<Rightarrow> message \<Rightarrow> response" where
  "fail c m = \<lparr>code = c, status = ''fail'', message = Some m, data = None\<rparr>"

definition success :: "nat \<Rightarrow> message option \<Rightarrow> data option \<Rightarrow> response" where
  "success c m d = \<lparr>code = c, status = ''success'', message = m, data = d\<rparr>"

text \<open>\<^verbatim>\<open>Array.prototype.findIndex\<close>: the first index whose element passes, or \<open>-1\<close>.\<close>

fun findIndex :: "('a \<Rightarrow> bool) \<Rightarrow> 'a list \<Rightarrow> int" where
  "findIndex P [] = - 1"
| "findIndex P (x # xs) =
     (if P x then 0 else let i = findIndex P xs in if i = - 1 then - 1 else i + 1)"

text \<open>\<^verbatim>\<open>books.splice(index, 1)\<close> for an index inside the array.\<close>

definition splice1 :: "nat \<Rightarrow> 'a list \<Rightarrow> 'a list" where
  "splice1 i xs = take i xs @ drop (Suc i) xs"

subsection \<open>\<^verbatim>\<open>addBookController\<close>\<close>

text \<open>
  \<open>nid\<close> is what \<^verbatim>\<open>nanoid(16)\<close> returns and \<open>now\<close> what
  \<^verbatim>\<open>new Date().toISOString()\<close> returns in this call. The result is the response and the
  array \<^verbatim>\<open>books\<close> after the call. The destructuring of line 17 is inside \<^verbatim>\<open>try\<close>: on a
  \<^verbatim>\<open>null\<close> payload it throws a \<^verbatim>\<open>TypeError\<close>, which the \<^verbatim>\<open>catch\<close> answers with 500.
\<close>

definition addBookController ::
  "string \<Rightarrow> string \<Rightarrow> payload option \<Rightarrow> book list \<Rightarrow> response \<times> book list" where
  "addBookController nid now payload books =
     (case payload of
        None \<Rightarrow> (fail 500 (ErrMessage TypeError), books)
      | Some p \<Rightarrow>
          if IsStrictlyEqual (name p) Undefined
          then (fail 400 (Msg ''Gagal menambahkan buku. Mohon isi nama buku''), books)
          else if IsLessThan (pageCount p) (readPage p)
          then (fail 400
                  (Msg ''Gagal menambahkan buku. readPage tidak boleh lebih besar dari pageCount''),
                books)
          else
            let insertedAt = now;
                updatedAt = insertedAt;
                finished = IsStrictlyEqual (pageCount p) (readPage p);
                newBook = \<lparr>name = name p, year = year p, author = author p,
                           summary = summary p, publisher = publisher p,
                           pageCount = pageCount p, readPage = readPage p,
                           reading = reading p, id' = nid, finished = finished,
                           insertedAt = insertedAt, updatedAt = updatedAt\<rparr>;
                books' = books @ [newBook];
                isSuccess = (length (filter (\<lambda>book. id' book = nid) books') > 0)
            in if isSuccess
               then (success 201 (Some (Msg ''Buku berhasil ditambahkan'')) (Some (BookId nid)),
                     books')
               else (fail 500 (Msg ''Buku gagal ditambahkan''), books'))"

subsection \<open>\<^verbatim>\<open>getAllBooksController\<close>\<close>

text \<open>
  \<^verbatim>\<open>book.name.toLowerCase().includes(name.toLowerCase())\<close>: only a string has
  \<^verbatim>\<open>toLowerCase\<close>. The call throws a \<^verbatim>\<open>TypeError\<close> on a stored name that is not a
  string and, evaluated next, on a query value that is an array.
\<close>

definition nameIncludes :: "queryValue \<Rightarrow> book \<Rightarrow> js_error + bool" where
  "nameIncludes q book =
     (case name book of
        JStr s \<Rightarrow>
          (case q of
             QString n \<Rightarrow> Inr (includesStr (toLowerCase s) (toLowerCase n))
           | QArray _ \<Rightarrow> Inl TypeError)
      | _ \<Rightarrow> Inl TypeError)"

text \<open>\<^verbatim>\<open>Array.prototype.filter\<close> with a callback that may throw: the first throw ends it.\<close>

fun filterThrowing :: "('a \<Rightarrow> js_error + bool) \<Rightarrow> 'a list \<Rightarrow> js_error + 'a list" where
  "filterThrowing f [] = Inr []"
| "filterThrowing f (x # xs) =
     (case f x of
        Inl e \<Rightarrow> Inl e
      | Inr keep \<Rightarrow>
          (case filterThrowing f xs of
             Inl e \<Rightarrow> Inl e
           | Inr ys \<Rightarrow> Inr (if keep then x # ys else ys)))"

definition toSummary :: "book \<Rightarrow> bookSummary" where
  "toSummary book =
     \<lparr>summaryId = id' book, summaryName = name book, summaryPublisher = publisher book\<rparr>"

definition getAllBooksController :: "query \<Rightarrow> book list \<Rightarrow> response" where
  "getAllBooksController q books =
     (case (case nameQuery q of
              None \<Rightarrow> Inr books
            | Some n \<Rightarrow> filterThrowing (nameIncludes n) books) of
        Inl err \<Rightarrow> fail 500 (ErrMessage err)
      | Inr byName \<Rightarrow>
          let byReading =
                (case readingQuery q of
                   None \<Rightarrow> byName
                 | Some r \<Rightarrow>
                     filter (\<lambda>book. IsStrictlyEqual (reading book)
                                       (JBool (ToBoolean (queryToNumber r)))) byName);
              byFinished =
                (case finishedQuery q of
                   None \<Rightarrow> byReading
                 | Some f \<Rightarrow>
                     filter (\<lambda>book. IsStrictlyEqual (JBool (finished book))
                                       (JBool (ToBoolean (queryToNumber f)))) byReading)
          in success 200 None (Some (Books (map toSummary byFinished))))"

subsection \<open>\<^verbatim>\<open>getBookByIdController\<close>\<close>

definition getBookByIdController :: "string \<Rightarrow> book list \<Rightarrow> response" where
  "getBookByIdController bid books =
     (case filter (\<lambda>book. id' book = bid) books of
        book # _ \<Rightarrow> success 200 None (Some (Book book))
      | [] \<Rightarrow> fail 404 (Msg ''Buku tidak ditemukan''))"

subsection \<open>\<^verbatim>\<open>editBookByIdController\<close>\<close>

text \<open>
  Line 183 reads the payload before line 185 looks the id up, so a \<^verbatim>\<open>null\<close> payload
  throws, and is answered with 500, whether or not the id exists.
\<close>

definition editBookByIdController ::
  "string \<Rightarrow> string \<Rightarrow> payload option \<Rightarrow> book list \<Rightarrow> response \<times> book list" where
  "editBookByIdController bid now payload books =
     (case payload of
        None \<Rightarrow> (fail 500 (ErrMessage TypeError), books)
      | Some p \<Rightarrow>
          let updatedAt = now;
              index = findIndex (\<lambda>book. id' book = bid) books
          in if index \<noteq> - 1
             then
               if IsStrictlyEqual (name p) Undefined
               then (fail 400 (Msg ''Gagal memperbarui buku. Mohon isi nama buku''), books)
               else if IsLessThan (pageCount p) (readPage p)
               then (fail 400
                       (Msg ''Gagal memperbarui buku. readPage tidak boleh lebih besar dari pageCount''),
                     books)
               else
                 let finished = IsStrictlyEqual (pageCount p) (readPage p)
                 in (success 200 (Some (Msg ''Buku berhasil diperbarui'')) None,
                     books[nat index :=
                       (books ! nat index)
                         \<lparr>name := name p, year := year p, author := author p,
                          summary := summary p, publisher := publisher p,
                          pageCount := pageCount p, readPage := readPage p,
                          finished := finished, reading := reading p,
                          updatedAt := updatedAt\<rparr>])
             else (fail 404 (Msg ''Gagal memperbarui buku. Id tidak ditemukan''), books))"

subsection \<open>\<^verbatim>\<open>deleteBookByIdController\<close>\<close>

definition deleteBookByIdController :: "string \<Rightarrow> book list \<Rightarrow> response \<times> book list" where
  "deleteBookByIdController bid books =
     (let index = findIndex (\<lambda>note. id' note = bid) books
      in if index \<noteq> - 1
         then (success 200 (Some (Msg ''Buku berhasil dihapus'')) None, splice1 (nat index) books)
         else (fail 404 (Msg ''Buku gagal dihapus. Id tidak ditemukan''), books))"

section \<open>The collection over time\<close>

text \<open>
  Modelled from the spec: the module \<^verbatim>\<open>../model/books\<close> that exports the array is not among
  the sources; the specification says the collection is "reset to empty on process restart".
\<close>

definition initialBooks :: "book list" where
  "initialBooks = []"

text \<open>The arrays the three writing controllers can produce, starting from the empty one.\<close>

inductive reachable :: "book list \<Rightarrow> bool" where
  reachable_initial: "reachable initialBooks"
| reachable_add:
    "reachable books \<Longrightarrow> reachable (snd (addBookController nid now payload books))"
| reachable_edit:
    "reachable books \<Longrightarrow> reachable (snd (editBookByIdController bid now payload books))"
| reachable_delete: "reachable books \<Longrightarrow> reachable (snd (deleteBookByIdController bid books))"

section \<open>The specification's reading of the list filter\<close>

fun isString :: "jsval \<Rightarrow> bool" where
  "isString (JStr _) = True"
| "isString _ = False"

text \<open>
  A record matches a query when it passes every filter that is supplied: its name contains
  the name filter, both lower-cased; its \<open>reading\<close> (its \<open>finished\<close>) is the boolean the
  filter value stands for. A filter that is absent asks nothing. A name filter that is not a
  single string matches nothing.
\<close>

definition matchesQuery :: "query \<Rightarrow> book \<Rightarrow> bool" where
  "matchesQuery q b =
     ((case nameQuery q of
         None \<Rightarrow> True
       | Some (QString n) \<Rightarrow>
           (case name b of JStr s \<Rightarrow> sublist (toLowerCase n) (toLowerCase s) | _ \<Rightarrow> False)
       | Some (QArray _) \<Rightarrow> False)
      \<and> (case readingQuery q of
            None \<Rightarrow> True
          | Some r \<Rightarrow> reading b = JBool (ToBoolean (queryToNumber r)))
      \<and> (case finishedQuery q of
            None \<Rightarrow> True
          | Some f \<Rightarrow> finished b = ToBoolean (queryToNumber f)))"

text \<open>
  The requests on which the name filter faults: a string filter over a collection with a
  stored name that is not a string, and an array filter over any collection that is not empty.
\<close>

fun nameFilterThrows :: "queryValue option \<Rightarrow> book list \<Rightarrow> bool" where
  "nameFilterThrows None books = False"
| "nameFilterThrows (Some (QString n)) books = (\<not> list_all (\<lambda>b. isString (name b)) books)"
| "nameFilterThrows (Some (QArray ns)) books = (books \<noteq> [])"

section \<open>Example requests and records\<close>

text \<open>
  The two books of the specification's scenario, as payloads and as stored; two payloads that
  test the guards; and two records whose name is not a string.
\<close>

definition payloadA :: payload where
  "payloadA = \<lparr>name = JStr ''A'', year = JNum (Fin 2010), author = JStr ''John Doe'',
                summary = Undefined, publisher = JStr ''Dicoding'',
                pageCount = JNum (Fin 100), readPage = JNum (Fin 100), reading = JBool False\<rparr>"

definition payloadB :: payload where
  "payloadB = \<lparr>name = JStr ''B'', year = JNum (Fin 2011), author = JStr ''Jane Doe'',
                summary = JStr ''Bumi Manusia'', publisher = JStr ''Gramedia'',
                pageCount = JNum (Fin 100), readPage = JNum (Fin 50), reading = JBool True\<rparr>"

definition payloadNoName :: payload where
  "payloadNoName = \<lparr>name = Undefined, year = Undefined, author = Undefined,
                     summary = Undefined, publisher = Undefined,
                     pageCount = JNum (Fin 1), readPage = JNum (Fin 2), reading = Undefined\<rparr>"

definition payloadNullName :: payload where
  "payloadNullName = \<lparr>name = Null, year = Undefined, author = Undefined,
                       summary = Undefined, publisher = Undefined,
                       pageCount = Undefined, readPage = Undefined, reading = Undefined\<rparr>"

definition storedA :: book where
  "storedA = \<lparr>name = JStr ''A'', year = JNum (Fin 2010), author = JStr ''John Doe'',
               summary = Undefined, publisher = JStr ''Dicoding'',
               pageCount = JNum (Fin 100), readPage = JNum (Fin 100), reading = JBool False,
               id' = ''idA'', finished = True, insertedAt = ''t1'', updatedAt = ''t1''\<rparr>"

definition storedB :: book where
  "storedB = \<lparr>name = JStr ''B'', year = JNum (Fin 2011), author = JStr ''Jane Doe'',
               summary = JStr ''Bumi Manusia'', publisher = JStr ''Gramedia'',
               pageCount = JNum (Fin 100), readPage = JNum (Fin 50), reading = JBool True,
               id' = ''idB'', finished = False, insertedAt = ''t2'', updatedAt = ''t2''\<rparr>"

definition storedNull :: book where
  "storedNull = \<lparr>name = Null, year = Undefined, author = Undefined, summary = Undefined,
                  publisher = Undefined, pageCount = Undefined, readPage = Undefined,
                  reading = Undefined, id' = ''idN'', finished = True,
                  insertedAt = ''t4'', updatedAt = ''t4''\<rparr>"


section \<open>Facts about the operators\<close>

lemma IsStrictlyEqual_Undefined [simp]: "IsStrictlyEqual x Undefined = (x = Undefined)"
  by (cases x) simp_all

lemma IsStrictlyEqual_commute: "IsStrictlyEqual x y = IsStrictlyEqual y x"
  by (cases x; cases y) auto

lemma IsLessThan_Undefined [simp]: "IsLessThan Undefined y = False"
  by (cases y) simp_all

lemma findIndex_lower: "- 1 \<le> findIndex P xs"
  by (induction xs) (simp_all add: Let_def)

lemma findIndex_absent: "findIndex P xs = - 1 \<longleftrightarrow> (\<forall>x \<in> set xs. \<not> P x)"
proof (induction xs)
  case Nil
  show ?case by simp
next
  case (Cons x xs)
  have "findIndex P xs + 1 \<noteq> - 1"
    using findIndex_lower [of P xs] by arith
  with Cons show ?case by (simp add: Let_def)
qed

lemma findIndex_first:
  assumes "\<forall>x \<in> set xs. \<not> P x" and "P y"
  shows "findIndex P (xs @ y # ys) = int (length xs)"
  using assms by (induction xs) (simp_all add: Let_def)

section \<open>Creating a book\<close>

lemma addBookController_accepts:
  assumes "name p \<noteq> Undefined" and "\<not> IsLessThan (pageCount p) (readPage p)"
  shows "addBookController nid now (Some p) books =
           (success 201 (Some (Msg ''Buku berhasil ditambahkan'')) (Some (BookId nid)),
            books @ [\<lparr>name = name p, year = year p, author = author p, summary = summary p,
                       publisher = publisher p, pageCount = pageCount p, readPage = readPage p,
                       reading = reading p, id' = nid,
                       finished = IsStrictlyEqual (pageCount p) (readPage p),
                       insertedAt = now, updatedAt = now\<rparr>])"
  using assms by (simp add: addBookController_def Let_def)

lemma addBookController_rejects_name:
  assumes "name p = Undefined"
  shows "addBookController nid now (Some p) books =
           (fail 400 (Msg ''Gagal menambahkan buku. Mohon isi nama buku''), books)"
  using assms by (simp add: addBookController_def)

lemma addBookController_rejects_pages:
  assumes "name p \<noteq> Undefined" and "IsLessThan (pageCount p) (readPage p)"
  shows "addBookController nid now (Some p) books =
           (fail 400 (Msg ''Gagal menambahkan buku. readPage tidak boleh lebih besar dari pageCount''),
            books)"
  using assms by (simp add: addBookController_def)

lemma addBookController_null:
  "addBookController nid now None books = (fail 500 (ErrMessage TypeError), books)"
  by (simp add: addBookController_def)

lemma editBookByIdController_null:
  "editBookByIdController bid now None books = (fail 500 (ErrMessage TypeError), books)"
  by (simp add: editBookByIdController_def)

text \<open>
  C1. When the name is defined and \<open>readPage\<close> does not exceed \<open>pageCount\<close> (the guard
  \<^verbatim>\<open>pageCount < readPage\<close> is false), the controller answers 201 with the generated id and
  the array has grown by exactly one record at its end: the record carries that id, its
  \<open>finished\<close> is \<open>readPage === pageCount\<close>, and \<open>insertedAt\<close> and \<open>updatedAt\<close> are the same
  time stamp. The 500 answer after the retrieval check is not produced.
\<close>

theorem create_valid_input_succeeds:
  assumes "name p \<noteq> Undefined" and "\<not> IsLessThan (pageCount p) (readPage p)"
  shows "addBookController nid now (Some p) books =
           (success 201 (Some (Msg ''Buku berhasil ditambahkan'')) (Some (BookId nid)),
            books @ [\<lparr>name = name p, year = year p, author = author p, summary = summary p,
                       publisher = publisher p, pageCount = pageCount p, readPage = readPage p,
                       reading = reading p, id' = nid,
                       finished = IsStrictlyEqual (readPage p) (pageCount p),
                       insertedAt = now, updatedAt = now\<rparr>])"
  using addBookController_accepts [OF assms] IsStrictlyEqual_commute [of "readPage p" "pageCount p"]
  by simp

theorem create_valid_input_succeeds_witness:
  "name payloadB \<noteq> Undefined \<and> \<not> IsLessThan (pageCount payloadB) (readPage payloadB)
   \<and> addBookController ''idB'' ''t2'' (Some payloadB) [storedA] =
       (success 201 (Some (Msg ''Buku berhasil ditambahkan'')) (Some (BookId ''idB'')),
        [storedA, storedB])"
proof -
  have n: "name payloadB \<noteq> Undefined"
    by (simp add: payloadB_def)
  have l: "\<not> IsLessThan (pageCount payloadB) (readPage payloadB)"
    by (simp add: payloadB_def)
  show ?thesis
    using n l create_valid_input_succeeds [OF n l, of "''idB''" "''t2''" "[storedA]"]
    by (simp add: payloadB_def storedB_def)
qed

text \<open>
  C2 (as amended). For a request with a body: a payload without a name is refused by
  \<^verbatim>\<open>POST /books\<close> with the missing-name answer; a payload with a name whose \<open>readPage\<close>
  exceeds its \<open>pageCount\<close> is refused with the page-count answer, by \<^verbatim>\<open>POST /books\<close> and,
  when the id exists, by \<^verbatim>\<open>PUT /books/{id}\<close>. A request without a body is answered 500
  by both. Each of these answers returns the array as it was.
\<close>

theorem rejected_write_keeps_collection:
  shows "(name p = Undefined \<longrightarrow>
            addBookController nid now (Some p) books =
              (fail 400 (Msg ''Gagal menambahkan buku. Mohon isi nama buku''), books))
       \<and> (name p \<noteq> Undefined \<and> IsLessThan (pageCount p) (readPage p) \<longrightarrow>
            addBookController nid now (Some p) books =
              (fail 400
                 (Msg ''Gagal menambahkan buku. readPage tidak boleh lebih besar dari pageCount''),
               books))
       \<and> (bid \<in> id' ` set books \<and> name p \<noteq> Undefined
            \<and> IsLessThan (pageCount p) (readPage p) \<longrightarrow>
            editBookByIdController bid now (Some p) books =
              (fail 400
                 (Msg ''Gagal memperbarui buku. readPage tidak boleh lebih besar dari pageCount''),
               books))
       \<and> addBookController nid now None books = (fail 500 (ErrMessage TypeError), books)
       \<and> editBookByIdController bid now None books = (fail 500 (ErrMessage TypeError), books)"
proof (intro conjI impI)
  show "addBookController nid now None books = (fail 500 (ErrMessage TypeError), books)"
    by (rule addBookController_null)
next
  show "editBookByIdController bid now None books = (fail 500 (ErrMessage TypeError), books)"
    by (rule editBookByIdController_null)
next
  assume "name p = Undefined"
  then show "addBookController nid now (Some p) books =
               (fail 400 (Msg ''Gagal menambahkan buku. Mohon isi nama buku''), books)"
    by (rule addBookController_rejects_name)
next
  assume "name p \<noteq> Undefined \<and> IsLessThan (pageCount p) (readPage p)"
  then show "addBookController nid now (Some p) books =
               (fail 400
                  (Msg ''Gagal menambahkan buku. readPage tidak boleh lebih besar dari pageCount''),
                books)"
    by (simp add: addBookController_rejects_pages)
next
  assume a: "bid \<in> id' ` set books \<and> name p \<noteq> Undefined
             \<and> IsLessThan (pageCount p) (readPage p)"
  then have "findIndex (\<lambda>book. id' book = bid) books \<noteq> - 1"
    by (auto simp: findIndex_absent)
  with a show "editBookByIdController bid now (Some p) books =
               (fail 400
                  (Msg ''Gagal memperbarui buku. readPage tidak boleh lebih besar dari pageCount''),
                books)"
    by (simp add: editBookByIdController_def Let_def)
qed

theorem rejected_write_keeps_collection_witness:
  "name payloadNoName = Undefined
   \<and> addBookController ''idC'' ''t3'' (Some payloadNoName) [storedA, storedB] =
       (fail 400 (Msg ''Gagal menambahkan buku. Mohon isi nama buku''), [storedA, storedB])
   \<and> name (payloadB\<lparr>readPage := JNum (Fin 101)\<rparr>) \<noteq> Undefined
   \<and> IsLessThan (pageCount (payloadB\<lparr>readPage := JNum (Fin 101)\<rparr>))
        (readPage (payloadB\<lparr>readPage := JNum (Fin 101)\<rparr>))
   \<and> ''idB'' \<in> id' ` set [storedA, storedB]
   \<and> addBookController ''idC'' ''t3'' (Some (payloadB\<lparr>readPage := JNum (Fin 101)\<rparr>)) [storedA, storedB] =
       (fail 400
          (Msg ''Gagal menambahkan buku. readPage tidak boleh lebih besar dari pageCount''),
        [storedA, storedB])
   \<and> editBookByIdController ''idB'' ''t3'' (Some (payloadB\<lparr>readPage := JNum (Fin 101)\<rparr>))
        [storedA, storedB] =
       (fail 400
          (Msg ''Gagal memperbarui buku. readPage tidak boleh lebih besar dari pageCount''),
        [storedA, storedB])
   \<and> addBookController ''idC'' ''t3'' None [storedA, storedB] =
       (fail 500 (ErrMessage TypeError), [storedA, storedB])
   \<and> editBookByIdController ''idB'' ''t3'' None [storedA, storedB] =
       (fail 500 (ErrMessage TypeError), [storedA, storedB])"
proof -
  have a: "name payloadNoName = Undefined"
    by (simp add: payloadNoName_def)
  have b: "name (payloadB\<lparr>readPage := JNum (Fin 101)\<rparr>) \<noteq> Undefined"
    by (simp add: payloadB_def)
  have c: "IsLessThan (pageCount (payloadB\<lparr>readPage := JNum (Fin 101)\<rparr>))
             (readPage (payloadB\<lparr>readPage := JNum (Fin 101)\<rparr>))"
    by (simp add: payloadB_def)
  have d: "''idB'' \<in> id' ` set [storedA, storedB]"
    by (simp add: storedA_def storedB_def)
  show ?thesis
    using a b c d
      rejected_write_keeps_collection
        [of payloadNoName "''idC''" "''t3''" "[storedA, storedB]" "''idB''"]
      rejected_write_keeps_collection
        [of "payloadB\<lparr>readPage := JNum (Fin 101)\<rparr>" "''idC''" "''t3''" "[storedA, storedB]"
            "''idB''"]
    by simp
qed

text \<open>
  The unamended C2 fails where both guards apply: without a name and with \<open>readPage\<close> 2 above
  \<open>pageCount\<close> 1, the answer is the missing-name one, which is checked first. It also fails for
  a request without a body, where no name is given and the answer is 500, not the missing-name
  one.
\<close>

theorem page_guard_after_name_guard_counterexample:
  "IsLessThan (pageCount payloadNoName) (readPage payloadNoName)
   \<and> fst (addBookController ''idC'' ''t3'' (Some payloadNoName) []) =
       fail 400 (Msg ''Gagal menambahkan buku. Mohon isi nama buku'')
   \<and> fst (addBookController ''idC'' ''t3'' (Some payloadNoName) []) \<noteq>
       fail 400 (Msg ''Gagal menambahkan buku. readPage tidak boleh lebih besar dari pageCount'')
   \<and> fst (addBookController ''idC'' ''t3'' None []) = fail 500 (ErrMessage TypeError)
   \<and> fst (addBookController ''idC'' ''t3'' None []) \<noteq>
       fail 400 (Msg ''Gagal menambahkan buku. Mohon isi nama buku'')"
  by (simp add: payloadNoName_def addBookController_def fail_def)

section \<open>Updating and deleting a book\<close>

text \<open>Every array that holds a record with the id splits at the first such record.\<close>

lemma first_with_id:
  assumes "bid \<in> id' ` set books"
  shows "\<exists>xs b ys. books = xs @ b # ys \<and> id' b = bid \<and> bid \<notin> id' ` set xs"
proof -
  from assms have "\<exists>x \<in> set books. id' x = bid"
    by auto
  then obtain xs b ys where "books = xs @ b # ys" "id' b = bid" "\<forall>y \<in> set xs. \<not> id' y = bid"
    using split_list_first_prop [of books "\<lambda>x. id' x = bid"] by blast
  then show ?thesis
    by (intro exI [of _ xs] exI [of _ b] exI [of _ ys]) (auto simp: image_iff)
qed

lemma editBookByIdController_unknown:
  assumes "bid \<notin> id' ` set books"
  shows "editBookByIdController bid now (Some p) books =
           (fail 404 (Msg ''Gagal memperbarui buku. Id tidak ditemukan''), books)"
proof -
  from assms have "findIndex (\<lambda>book. id' book = bid) books = - 1"
    by (auto simp: findIndex_absent)
  then show ?thesis
    by (simp add: editBookByIdController_def)
qed

lemma editBookByIdController_accepts:
  assumes first: "id' b \<notin> id' ` set xs"
    and valid: "name p \<noteq> Undefined" "\<not> IsLessThan (pageCount p) (readPage p)"
  shows "editBookByIdController (id' b) now (Some p) (xs @ b # ys) =
           (success 200 (Some (Msg ''Buku berhasil diperbarui'')) None,
            xs @ b\<lparr>name := name p, year := year p, author := author p, summary := summary p,
                    publisher := publisher p, pageCount := pageCount p, readPage := readPage p,
                    finished := IsStrictlyEqual (pageCount p) (readPage p),
                    reading := reading p, updatedAt := now\<rparr> # ys)"
proof -
  from first have "\<forall>x \<in> set xs. \<not> id' x = id' b"
    by (force simp: image_iff)
  then have "findIndex (\<lambda>book. id' book = id' b) (xs @ b # ys) = int (length xs)"
    by (rule findIndex_first) simp
  with valid show ?thesis
    by (simp add: editBookByIdController_def Let_def)
qed

text \<open>
  C5 (as amended). For an id that no stored record has, \<^verbatim>\<open>PUT /books/{id}\<close> with a body
  answers 404 whatever the payload is, and leaves the array alone; so a 400 answer of this
  controller always concerns an id that exists. Without a body the answer is 500, for a known
  and for an unknown id: the payload is read before the id is looked up.
\<close>

theorem update_unknown_id_is_not_found:
  shows "(bid \<notin> id' ` set books \<longrightarrow>
            editBookByIdController bid now (Some p) books =
              (fail 404 (Msg ''Gagal memperbarui buku. Id tidak ditemukan''), books))
       \<and> (code (fst (editBookByIdController bid now payload books)) = 400 \<longrightarrow>
            bid \<in> id' ` set books)
       \<and> editBookByIdController bid now None books = (fail 500 (ErrMessage TypeError), books)"
proof (intro conjI impI)
  assume "bid \<notin> id' ` set books"
  then show "editBookByIdController bid now (Some p) books =
               (fail 404 (Msg ''Gagal memperbarui buku. Id tidak ditemukan''), books)"
    by (rule editBookByIdController_unknown)
next
  assume c: "code (fst (editBookByIdController bid now payload books)) = 400"
  show "bid \<in> id' ` set books"
  proof (rule ccontr)
    assume n: "bid \<notin> id' ` set books"
    have "code (fst (editBookByIdController bid now payload books)) \<noteq> 400"
    proof (cases payload)
      case None
      then show ?thesis
        by (simp add: editBookByIdController_null fail_def)
    next
      case (Some r)
      with n show ?thesis
        by (simp add: editBookByIdController_unknown fail_def)
    qed
    with c show False by simp
  qed
next
  show "editBookByIdController bid now None books = (fail 500 (ErrMessage TypeError), books)"
    by (rule editBookByIdController_null)
qed

theorem update_unknown_id_is_not_found_witness:
  "''idZ'' \<notin> id' ` set [storedA, storedB]
   \<and> editBookByIdController ''idZ'' ''t3'' (Some payloadNoName) [storedA, storedB] =
       (fail 404 (Msg ''Gagal memperbarui buku. Id tidak ditemukan''), [storedA, storedB])
   \<and> code (fst (editBookByIdController ''idA'' ''t3'' (Some payloadNoName) [storedA, storedB])) = 400
   \<and> ''idA'' \<in> id' ` set [storedA, storedB]"
proof -
  have a: "''idZ'' \<notin> id' ` set [storedA, storedB]"
    by (simp add: storedA_def storedB_def)
  have b: "code (fst (editBookByIdController ''idA'' ''t3'' (Some payloadNoName) [storedA, storedB]))
             = 400"
    by (simp add: editBookByIdController_def payloadNoName_def storedA_def storedB_def fail_def)
  show ?thesis
    using a b
      update_unknown_id_is_not_found
        [of "''idZ''" "[storedA, storedB]" "''t3''" payloadNoName "Some payloadNoName"]
      update_unknown_id_is_not_found
        [of "''idA''" "[storedA, storedB]" "''t3''" payloadNoName "Some payloadNoName"]
    by simp
qed

text \<open>
  The unamended C5 says that an unknown id is answered 404 regardless of the payload. A
  \<^verbatim>\<open>PUT\<close> without a body for an unknown id is answered 500.
\<close>

theorem update_unknown_id_without_body_counterexample:
  "''idZ'' \<notin> id' ` set [storedA, storedB]
   \<and> editBookByIdController ''idZ'' ''t3'' None [storedA, storedB] =
       (fail 500 (ErrMessage TypeError), [storedA, storedB])
   \<and> fst (editBookByIdController ''idZ'' ''t3'' None [storedA, storedB]) \<noteq>
       fail 404 (Msg ''Gagal memperbarui buku. Id tidak ditemukan'')"
  by (simp add: editBookByIdController_def storedA_def storedB_def fail_def)

text \<open>
  C6. Let \<open>b\<close> be the record that \<^verbatim>\<open>findIndex\<close> meets first under its id (no record before it
  has that id). A valid payload makes \<^verbatim>\<open>PUT /books/{id}\<close> answer 200 and put in \<open>b\<close>'s place a
  record with \<open>b\<close>'s \<open>id\<close> and \<open>insertedAt\<close>, every payload key as sent (an absent key is
  written as \<open>undefined\<close>), \<open>finished\<close> recomputed as \<open>readPage === pageCount\<close>, and
  \<open>updatedAt\<close> set to the time of the call. The records before and after are the same.
\<close>

theorem update_replaces_all_but_id_and_insertedAt:
  assumes "id' b \<notin> id' ` set xs"
    and "name p \<noteq> Undefined"
    and "\<not> IsLessThan (pageCount p) (readPage p)"
  shows "editBookByIdController (id' b) now (Some p) (xs @ b # ys) =
           (success 200 (Some (Msg ''Buku berhasil diperbarui'')) None,
            xs @ \<lparr>name = name p, year = year p, author = author p, summary = summary p,
                   publisher = publisher p, pageCount = pageCount p, readPage = readPage p,
                   reading = reading p, id' = id' b,
                   finished = IsStrictlyEqual (readPage p) (pageCount p),
                   insertedAt = insertedAt b, updatedAt = now\<rparr> # ys)"
  using editBookByIdController_accepts [OF assms, of now ys]
    IsStrictlyEqual_commute [of "readPage p" "pageCount p"]
  by simp

theorem update_replaces_all_but_id_and_insertedAt_witness:
  "id' storedB \<notin> id' ` set [storedA]
   \<and> name payloadNullName \<noteq> Undefined
   \<and> \<not> IsLessThan (pageCount payloadNullName) (readPage payloadNullName)
   \<and> editBookByIdController ''idB'' ''t3'' (Some payloadNullName) [storedA, storedB, storedA] =
       (success 200 (Some (Msg ''Buku berhasil diperbarui'')) None,
        [storedA,
         \<lparr>name = Null, year = Undefined, author = Undefined, summary = Undefined,
            publisher = Undefined, pageCount = Undefined, readPage = Undefined,
            reading = Undefined, id' = ''idB'', finished = True,
            insertedAt = ''t2'', updatedAt = ''t3''\<rparr>,
         storedA])"
proof -
  have a: "id' storedB \<notin> id' ` set [storedA]"
    by (simp add: storedA_def storedB_def)
  have b: "name payloadNullName \<noteq> Undefined"
    by (simp add: payloadNullName_def)
  have c: "\<not> IsLessThan (pageCount payloadNullName) (readPage payloadNullName)"
    by (simp add: payloadNullName_def)
  have i: "id' storedB = ''idB''"
    by (simp add: storedB_def)
  show ?thesis
    using a b c update_replaces_all_but_id_and_insertedAt [OF a b c, of "''t3''" "[storedA]"]
    by (simp add: i) (simp add: payloadNullName_def storedB_def)
qed

lemma deleteBookByIdController_unknown:
  assumes "bid \<notin> id' ` set books"
  shows "deleteBookByIdController bid books =
           (fail 404 (Msg ''Buku gagal dihapus. Id tidak ditemukan''), books)"
proof -
  from assms have "findIndex (\<lambda>note. id' note = bid) books = - 1"
    by (auto simp: findIndex_absent)
  then show ?thesis
    by (simp add: deleteBookByIdController_def)
qed

lemma deleteBookByIdController_known:
  assumes "id' b \<notin> id' ` set xs"
  shows "deleteBookByIdController (id' b) (xs @ b # ys) =
           (success 200 (Some (Msg ''Buku berhasil dihapus'')) None, xs @ ys)"
proof -
  from assms have "\<forall>x \<in> set xs. \<not> id' x = id' b"
    by (force simp: image_iff)
  then have "findIndex (\<lambda>note. id' note = id' b) (xs @ b # ys) = int (length xs)"
    by (rule findIndex_first) simp
  then show ?thesis
    by (simp add: deleteBookByIdController_def splice1_def)
qed

text \<open>
  C8. \<^verbatim>\<open>DELETE /books/{id}\<close> with an id that no stored record has answers 404 and returns
  the array as it was, so with the same length. With the id of a stored record \<open>b\<close> (the first
  under that id) it answers 200 and returns the array without \<open>b\<close>: the records before and
  after \<open>b\<close> stay, in their order. So for every id that is present the answer is 200 and the
  length drops by one.
\<close>

theorem delete_removes_exactly_the_record:
  shows "(bid \<notin> id' ` set books \<longrightarrow>
            deleteBookByIdController bid books =
              (fail 404 (Msg ''Buku gagal dihapus. Id tidak ditemukan''), books))
       \<and> (id' b \<notin> id' ` set xs \<longrightarrow>
            deleteBookByIdController (id' b) (xs @ b # ys) =
              (success 200 (Some (Msg ''Buku berhasil dihapus'')) None, xs @ ys))
       \<and> (bid \<in> id' ` set books \<longrightarrow>
            fst (deleteBookByIdController bid books) =
              success 200 (Some (Msg ''Buku berhasil dihapus'')) None
            \<and> length (snd (deleteBookByIdController bid books)) + 1 = length books)"
proof (intro conjI impI)
  assume "bid \<notin> id' ` set books"
  then show "deleteBookByIdController bid books =
               (fail 404 (Msg ''Buku gagal dihapus. Id tidak ditemukan''), books)"
    by (rule deleteBookByIdController_unknown)
next
  assume "id' b \<notin> id' ` set xs"
  then show "deleteBookByIdController (id' b) (xs @ b # ys) =
               (success 200 (Some (Msg ''Buku berhasil dihapus'')) None, xs @ ys)"
    by (rule deleteBookByIdController_known)
next
  assume "bid \<in> id' ` set books"
  then obtain us c vs where s: "books = us @ c # vs" "id' c = bid" "bid \<notin> id' ` set us"
    using first_with_id by blast
  then have d: "deleteBookByIdController bid books =
                  (success 200 (Some (Msg ''Buku berhasil dihapus'')) None, us @ vs)"
    using deleteBookByIdController_known [of c us vs] by simp
  from d show "fst (deleteBookByIdController bid books) =
                 success 200 (Some (Msg ''Buku berhasil dihapus'')) None"
    by simp
  from d s(1) show "length (snd (deleteBookByIdController bid books)) + 1 = length books"
    by simp
qed

theorem delete_removes_exactly_the_record_witness:
  "''idZ'' \<notin> id' ` set [storedA, storedB]
   \<and> deleteBookByIdController ''idZ'' [storedA, storedB] =
       (fail 404 (Msg ''Buku gagal dihapus. Id tidak ditemukan''), [storedA, storedB])
   \<and> id' storedB \<notin> id' ` set [storedA]
   \<and> deleteBookByIdController ''idB'' [storedA, storedB, storedA] =
       (success 200 (Some (Msg ''Buku berhasil dihapus'')) None, [storedA, storedA])
   \<and> ''idB'' \<in> id' ` set [storedA, storedB, storedA]
   \<and> length (snd (deleteBookByIdController ''idB'' [storedA, storedB, storedA])) + 1 =
       length [storedA, storedB, storedA]"
proof -
  have a: "''idZ'' \<notin> id' ` set [storedA, storedB]"
    by (simp add: storedA_def storedB_def)
  have b: "id' storedB \<notin> id' ` set [storedA]"
    by (simp add: storedA_def storedB_def)
  have i: "id' storedB = ''idB''"
    by (simp add: storedB_def)
  have c: "''idB'' \<in> id' ` set [storedA, storedB, storedA]"
    by (simp add: storedB_def)
  show ?thesis
    using a b c
      delete_removes_exactly_the_record
        [of "''idZ''" "[storedA, storedB]" storedB "[storedA]" "[storedA]"]
      delete_removes_exactly_the_record
        [of "''idB''" "[storedA, storedB, storedA]" storedB "[storedA]" "[storedA]"]
    by (simp add: i)
qed

lemma filter_id_absent:
  assumes "bid \<notin> id' ` set xs"
  shows "filter (\<lambda>book. id' book = bid) xs = []"
  using assms by (induction xs) auto

lemma getBookByIdController_first:
  assumes "id' b \<notin> id' ` set xs"
  shows "getBookByIdController (id' b) (xs @ b # ys) = success 200 None (Some (Book b))"
  using filter_id_absent [OF assms] by (simp add: getBookByIdController_def)

section \<open>Create, read, update, read\<close>

text \<open>
  C7. Take a valid payload and a collection in which the id that \<^verbatim>\<open>nanoid\<close> returns is
  not yet used. \<^verbatim>\<open>POST /books\<close> stores a record \<open>r1\<close>, which \<^verbatim>\<open>GET /books/{id}\<close>
  returns; \<^verbatim>\<open>PUT /books/{id}\<close> with the same payload succeeds; and
  \<^verbatim>\<open>GET /books/{id}\<close> then returns \<open>r1\<close> with only \<open>updatedAt\<close> changed, to the
  time of the update.
\<close>

theorem create_get_update_get:
  fixes p :: payload and nid t1 t2 :: string and books :: "book list"
  defines "r1 \<equiv> \<lparr>name = name p, year = year p, author = author p, summary = summary p,
                    publisher = publisher p, pageCount = pageCount p, readPage = readPage p,
                    reading = reading p, id' = nid,
                    finished = IsStrictlyEqual (pageCount p) (readPage p),
                    insertedAt = t1, updatedAt = t1\<rparr>"
  defines "books1 \<equiv> snd (addBookController nid t1 (Some p) books)"
  defines "books2 \<equiv> snd (editBookByIdController nid t2 (Some p) books1)"
  assumes "name p \<noteq> Undefined"
    and "\<not> IsLessThan (pageCount p) (readPage p)"
    and "nid \<notin> id' ` set books"
  shows "fst (addBookController nid t1 (Some p) books) =
           success 201 (Some (Msg ''Buku berhasil ditambahkan'')) (Some (BookId nid))
       \<and> getBookByIdController nid books1 = success 200 None (Some (Book r1))
       \<and> fst (editBookByIdController nid t2 (Some p) books1) =
           success 200 (Some (Msg ''Buku berhasil diperbarui'')) None
       \<and> getBookByIdController nid books2 =
           success 200 None (Some (Book (r1\<lparr>updatedAt := t2\<rparr>)))"
proof -
  have i: "id' r1 = nid"
    by (simp add: r1_def)
  have fresh: "id' r1 \<notin> id' ` set books"
    using assms(6) by (simp add: i)
  have added: "addBookController nid t1 (Some p) books =
                 (success 201 (Some (Msg ''Buku berhasil ditambahkan'')) (Some (BookId nid)),
                  books @ r1 # [])"
    using addBookController_accepts [OF assms(4) assms(5), of nid t1 books]
    by (simp add: r1_def)
  then have b1: "books1 = books @ r1 # []"
    by (simp add: books1_def)
  have get1: "getBookByIdController nid books1 = success 200 None (Some (Book r1))"
    using getBookByIdController_first [OF fresh, of "[]"] by (simp add: b1 i)
  have edited: "editBookByIdController nid t2 (Some p) books1 =
                  (success 200 (Some (Msg ''Buku berhasil diperbarui'')) None,
                   books @ r1\<lparr>updatedAt := t2\<rparr> # [])"
    using editBookByIdController_accepts [OF fresh assms(4) assms(5), of t2 "[]"]
    by (simp add: b1 i) (simp add: r1_def)
  then have b2: "books2 = books @ r1\<lparr>updatedAt := t2\<rparr> # []"
    by (simp add: books2_def)
  have fresh2: "id' (r1\<lparr>updatedAt := t2\<rparr>) \<notin> id' ` set books"
    using fresh by simp
  have get2: "getBookByIdController nid books2 =
                success 200 None (Some (Book (r1\<lparr>updatedAt := t2\<rparr>)))"
    using getBookByIdController_first [OF fresh2, of "[]"] by (simp add: b2 i)
  from added get1 edited get2 show ?thesis
    by simp
qed

theorem create_get_update_get_witness:
  "name payloadB \<noteq> Undefined
   \<and> \<not> IsLessThan (pageCount payloadB) (readPage payloadB)
   \<and> ''idB'' \<notin> id' ` set [storedA]
   \<and> getBookByIdController ''idB'' (snd (addBookController ''idB'' ''t2'' (Some payloadB) [storedA])) =
       success 200 None (Some (Book storedB))
   \<and> getBookByIdController ''idB''
        (snd (editBookByIdController ''idB'' ''t3'' (Some payloadB)
               (snd (addBookController ''idB'' ''t2'' (Some payloadB) [storedA])))) =
       success 200 None (Some (Book (storedB\<lparr>updatedAt := ''t3''\<rparr>)))"
proof -
  have a: "name payloadB \<noteq> Undefined"
    by (simp add: payloadB_def)
  have b: "\<not> IsLessThan (pageCount payloadB) (readPage payloadB)"
    by (simp add: payloadB_def)
  have c: "''idB'' \<notin> id' ` set [storedA]"
    by (simp add: storedA_def)
  have r: "\<lparr>name = name payloadB, year = year payloadB, author = author payloadB,
             summary = summary payloadB, publisher = publisher payloadB,
             pageCount = pageCount payloadB, readPage = readPage payloadB,
             reading = reading payloadB, id' = ''idB'',
             finished = IsStrictlyEqual (pageCount payloadB) (readPage payloadB),
             insertedAt = ''t2'', updatedAt = ''t2''\<rparr> = storedB"
    by (simp add: payloadB_def storedB_def)
  show ?thesis
    using a b c create_get_update_get [OF a b c, of "''t2''" "''t3''"]
    by (simp add: r)
qed

section \<open>A book without page information\<close>

text \<open>
  C9. A payload with a name and with neither \<open>pageCount\<close> nor \<open>readPage\<close> passes both guards
  (\<^verbatim>\<open>undefined < undefined\<close> is false) and is stored with \<open>finished = true\<close>
  (\<^verbatim>\<open>undefined === undefined\<close> is true).
\<close>

theorem create_without_pages_is_finished:
  assumes "name p \<noteq> Undefined" and "pageCount p = Undefined" and "readPage p = Undefined"
  shows "addBookController nid now (Some p) books =
           (success 201 (Some (Msg ''Buku berhasil ditambahkan'')) (Some (BookId nid)),
            books @ [\<lparr>name = name p, year = year p, author = author p, summary = summary p,
                       publisher = publisher p, pageCount = Undefined, readPage = Undefined,
                       reading = reading p, id' = nid, finished = True,
                       insertedAt = now, updatedAt = now\<rparr>])"
proof -
  have "\<not> IsLessThan (pageCount p) (readPage p)"
    using assms(2,3) by simp
  from addBookController_accepts [OF assms(1) this, of nid now books] show ?thesis
    using assms(2,3) by simp
qed

theorem create_without_pages_is_finished_witness:
  "name payloadNullName \<noteq> Undefined
   \<and> pageCount payloadNullName = Undefined \<and> readPage payloadNullName = Undefined
   \<and> addBookController ''idN'' ''t4'' (Some payloadNullName) [] =
       (success 201 (Some (Msg ''Buku berhasil ditambahkan'')) (Some (BookId ''idN'')),
        [\<lparr>name = Null, year = Undefined, author = Undefined, summary = Undefined,
            publisher = Undefined, pageCount = Undefined, readPage = Undefined,
            reading = Undefined, id' = ''idN'', finished = True,
            insertedAt = ''t4'', updatedAt = ''t4''\<rparr>])"
proof -
  have a: "name payloadNullName \<noteq> Undefined"
    by (simp add: payloadNullName_def)
  have b: "pageCount payloadNullName = Undefined"
    by (simp add: payloadNullName_def)
  have c: "readPage payloadNullName = Undefined"
    by (simp add: payloadNullName_def)
  show ?thesis
    using a b c create_without_pages_is_finished [OF a b c, of "''idN''" "''t4''" "[]"]
    by (simp add: payloadNullName_def)
qed

section \<open>Listing books\<close>

lemma includesStr_sublist: "includesStr s t = sublist t s"
  by (induction s) (auto simp: sublist_Cons_right)

lemma nameIncludes_string:
  "name b = JStr s \<Longrightarrow>
   nameIncludes (QString n) b = Inr (sublist (toLowerCase n) (toLowerCase s))"
  by (simp add: nameIncludes_def includesStr_sublist)



lemma filterThrowing_strings:
  assumes "list_all (\<lambda>b. isString (name b)) books"
  shows "filterThrowing (nameIncludes (QString n)) books =
           Inr (filter (\<lambda>b. case name b of JStr s \<Rightarrow> sublist (toLowerCase n) (toLowerCase s)
                                         | _ \<Rightarrow> False) books)"
  using assms
proof (induction books)
  case Nil
  show ?case by simp
next
  case (Cons b books)
  then obtain s where "name b = JStr s"
    by (cases "name b") simp_all
  with Cons show ?case
    by (simp add: nameIncludes_string)
qed




lemma IsStrictlyEqual_JBool [simp]: "IsStrictlyEqual x (JBool c) = (x = JBool c)"
  by (cases x) auto

lemma getAllBooksController_returns:
  assumes "\<not> nameFilterThrows (nameQuery q) books"
  shows "getAllBooksController q books =
           success 200 None (Some (Books (map toSummary (filter (matchesQuery q) books))))"
proof (cases "nameQuery q")
  case None
  then show ?thesis
    by (cases "readingQuery q"; cases "finishedQuery q")
       (simp_all add: getAllBooksController_def matchesQuery_def [abs_def] Let_def)
next
  case (Some v)
  show ?thesis
  proof (cases v)
    case (QString n)
    with Some assms have "list_all (\<lambda>b. isString (name b)) books"
      by simp
    from filterThrowing_strings [OF this, of n] Some QString show ?thesis
      by (cases "readingQuery q"; cases "finishedQuery q")
         (simp_all add: getAllBooksController_def matchesQuery_def [abs_def] Let_def)
  next
    case (QArray ns)
    with Some assms have "books = []"
      by simp
    with Some QArray show ?thesis
      by (cases "readingQuery q"; cases "finishedQuery q")
         (simp_all add: getAllBooksController_def Let_def)
  qed
qed




text \<open>
  C4 (as amended). A \<open>reading\<close> or \<open>finished\<close> filter value \<open>s\<close> is turned into the boolean
  \<^verbatim>\<open>!!Number(s)\<close>, and the listing keeps exactly the records whose field is that boolean.
  \<^verbatim>\<open>"1"\<close> stands for true and \<^verbatim>\<open>"0"\<close> for false; so do, for false, the strings that are
  not numeric literals, such as \<^verbatim>\<open>"true"\<close>, and the empty string.
\<close>

theorem boolean_filter_is_numeric_truthiness:
  "getAllBooksController
     \<lparr>nameQuery = None, readingQuery = Some (QString s), finishedQuery = None\<rparr> books =
     success 200 None
       (Some (Books (map toSummary
          (filter (\<lambda>b. reading b = JBool (ToBoolean (StringToNumber s))) books))))
   \<and> getAllBooksController
       \<lparr>nameQuery = None, readingQuery = None, finishedQuery = Some (QString s)\<rparr> books =
       success 200 None
         (Some (Books (map toSummary
            (filter (\<lambda>b. finished b = ToBoolean (StringToNumber s)) books))))
   \<and> ToBoolean (StringToNumber ''1'') = True
   \<and> ToBoolean (StringToNumber ''0'') = False
   \<and> ToBoolean (StringToNumber ''true'') = False
   \<and> ToBoolean (StringToNumber []) = False"
proof -
  have n: "StringToNumber ''1'' = Fin 1 \<and> StringToNumber ''0'' = Fin 0
           \<and> StringToNumber ''true'' = NaN \<and> StringToNumber [] = Fin 0"
    by code_simp
  show ?thesis
    by (simp add: n getAllBooksController_def)
qed

theorem boolean_filter_is_numeric_truthiness_witness:
  "getAllBooksController
     \<lparr>nameQuery = None, readingQuery = Some (QString ''1''), finishedQuery = None\<rparr>
     [storedA, storedB] = success 200 None (Some (Books [toSummary storedB]))
   \<and> getAllBooksController
       \<lparr>nameQuery = None, readingQuery = None, finishedQuery = Some (QString ''1'')\<rparr>
       [storedA, storedB] = success 200 None (Some (Books [toSummary storedA]))"
proof -
  have r: "filter (\<lambda>b. reading b = JBool (ToBoolean (StringToNumber ''1''))) [storedA, storedB] =
             [storedB]"
    by code_simp
  have f: "filter (\<lambda>b. finished b = ToBoolean (StringToNumber ''1'')) [storedA, storedB] =
             [storedA]"
    by code_simp
  note t = boolean_filter_is_numeric_truthiness [of "''1''" "[storedA, storedB]", unfolded r f]
  then show ?thesis
    by simp
qed

text \<open>
  The unamended C4 says that every string other than \<^verbatim>\<open>"0"\<close> selects the records that
  are being read. The string \<^verbatim>\<open>"true"\<close> selects the one that is not.
\<close>

theorem reading_true_selects_not_reading_counterexample:
  "''true'' \<noteq> ''0''
   \<and> reading storedA = JBool False \<and> reading storedB = JBool True
   \<and> getAllBooksController
        \<lparr>nameQuery = None, readingQuery = Some (QString ''true''), finishedQuery = None\<rparr>
        [storedA, storedB] = success 200 None (Some (Books [toSummary storedA]))"
  by code_simp

section \<open>Names of stored books\<close>

lemma addBookController_names:
  assumes "list_all (\<lambda>b. name b \<noteq> Undefined) books"
  shows "list_all (\<lambda>b. name b \<noteq> Undefined) (snd (addBookController nid now payload books))"
  using assms by (cases payload) (simp_all add: addBookController_def Let_def)

lemma editBookByIdController_names:
  assumes "list_all (\<lambda>b. name b \<noteq> Undefined) books"
  shows "list_all (\<lambda>b. name b \<noteq> Undefined)
           (snd (editBookByIdController bid now payload books))"
proof (cases payload)
  case None
  with assms show ?thesis
    by (simp add: editBookByIdController_null)
next
  case (Some p)
  show ?thesis
  proof (cases "bid \<in> id' ` set books")
    case False
    with assms Some show ?thesis
      by (simp add: editBookByIdController_unknown)
  next
    case True
    then obtain xs b ys where s: "books = xs @ b # ys" "id' b = bid" "bid \<notin> id' ` set xs"
      using first_with_id by blast
    then have f: "findIndex (\<lambda>book. id' book = bid) books = int (length xs)"
      using findIndex_first [of xs "\<lambda>book. id' book = bid" b ys] by (force simp: image_iff)
    from assms s(1) f Some show ?thesis
      by (simp add: editBookByIdController_def Let_def)
  qed
qed

lemma deleteBookByIdController_names:
  assumes "list_all (\<lambda>b. name b \<noteq> Undefined) books"
  shows "list_all (\<lambda>b. name b \<noteq> Undefined) (snd (deleteBookByIdController bid books))"
proof (cases "bid \<in> id' ` set books")
  case False
  with assms show ?thesis
    by (simp add: deleteBookByIdController_unknown)
next
  case True
  then obtain xs b ys where s: "books = xs @ b # ys" "id' b = bid" "bid \<notin> id' ` set xs"
    using first_with_id by blast
  then have "deleteBookByIdController bid books =
               (success 200 (Some (Msg ''Buku berhasil dihapus'')) None, xs @ ys)"
    using deleteBookByIdController_known [of b xs ys] by simp
  with assms s(1) show ?thesis
    by simp
qed

text \<open>
  C10 (as amended). In every array that the controllers can produce from the empty one, each
  record has a name other than \<open>undefined\<close>: the two writing controllers refuse an undefined
  name and deleting adds nothing. The name filter of the listing works on such an array when
  every stored name is a string and the filter is a single string. (The guard lets \<open>null\<close>,
  numbers and booleans through as names, and a repeated name key arrives as an array; on
  those \<^verbatim>\<open>toLowerCase\<close> is not available.)
\<close>

theorem stored_names_are_defined:
  assumes "reachable books"
  shows "list_all (\<lambda>b. name b \<noteq> Undefined) books
       \<and> (list_all (\<lambda>b. isString (name b)) books \<longrightarrow>
            getAllBooksController
              \<lparr>nameQuery = Some (QString n), readingQuery = r, finishedQuery = f\<rparr> books =
              success 200 None
                (Some (Books (map toSummary
                   (filter (matchesQuery
                      \<lparr>nameQuery = Some (QString n), readingQuery = r, finishedQuery = f\<rparr>)
                      books)))))"
proof
  from assms show "list_all (\<lambda>b. name b \<noteq> Undefined) books"
  proof (induction rule: reachable.induct)
    case reachable_initial
    show ?case by (simp add: initialBooks_def)
  next
    case (reachable_add books nid now payload)
    then show ?case by (simp add: addBookController_names)
  next
    case (reachable_edit books bid now payload)
    then show ?case by (simp add: editBookByIdController_names)
  next
    case (reachable_delete books bid)
    then show ?case by (simp add: deleteBookByIdController_names)
  qed
next
  show "list_all (\<lambda>b. isString (name b)) books \<longrightarrow>
          getAllBooksController
            \<lparr>nameQuery = Some (QString n), readingQuery = r, finishedQuery = f\<rparr> books =
            success 200 None
              (Some (Books (map toSummary
                 (filter (matchesQuery
                    \<lparr>nameQuery = Some (QString n), readingQuery = r, finishedQuery = f\<rparr>)
                    books))))"
    by (simp add: getAllBooksController_returns)
qed

theorem stored_names_are_defined_witness:
  "reachable [storedA, storedB]
   \<and> list_all (\<lambda>b. name b \<noteq> Undefined) [storedA, storedB]
   \<and> list_all (\<lambda>b. isString (name b)) [storedA, storedB]
   \<and> getAllBooksController
        \<lparr>nameQuery = Some (QString ''A''), readingQuery = None, finishedQuery = None\<rparr>
        [storedA, storedB] = success 200 None (Some (Books [toSummary storedA]))"
proof -
  have a: "snd (addBookController ''idA'' ''t1'' (Some payloadA) initialBooks) = [storedA]"
    by (simp add: addBookController_def payloadA_def storedA_def initialBooks_def Let_def)
  have b: "snd (addBookController ''idB'' ''t2'' (Some payloadB) [storedA]) = [storedA, storedB]"
    by (simp add: addBookController_def payloadB_def storedB_def Let_def)
  have r: "reachable [storedA, storedB]"
    using reachable_add
            [OF reachable_add [OF reachable_initial, of "''idA''" "''t1''" "Some payloadA"],
             of "''idB''" "''t2''" "Some payloadB"]
    by (simp add: a b)
  have s: "list_all (\<lambda>b. isString (name b)) [storedA, storedB]"
    by (simp add: storedA_def storedB_def)
  have m: "filter (matchesQuery
             \<lparr>nameQuery = Some (QString ''A''), readingQuery = None, finishedQuery = None\<rparr>)
             [storedA, storedB] = [storedA]"
    by code_simp
  note t = stored_names_are_defined [OF r, of "''A''" None None, unfolded m]
  with r s show ?thesis
    by simp
qed

text \<open>
  The unamended C10 concludes that the name filter never faults on a stored record. Creating
  a book whose name is \<open>null\<close> succeeds from the empty collection, the stored name is not
  \<open>undefined\<close>, and a listing with a name filter then answers 500.
\<close>

theorem null_name_is_stored_and_throws_counterexample:
  "addBookController ''idN'' ''t4'' (Some payloadNullName) initialBooks =
     (success 201 (Some (Msg ''Buku berhasil ditambahkan'')) (Some (BookId ''idN'')), [storedNull])
   \<and> reachable [storedNull]
   \<and> name storedNull \<noteq> Undefined
   \<and> getAllBooksController
        \<lparr>nameQuery = Some (QString ''a''), readingQuery = None, finishedQuery = None\<rparr>
        [storedNull] = fail 500 (ErrMessage TypeError)"
proof -
  have a: "addBookController ''idN'' ''t4'' (Some payloadNullName) initialBooks =
             (success 201 (Some (Msg ''Buku berhasil ditambahkan'')) (Some (BookId ''idN'')),
              [storedNull])"
    by (simp add: addBookController_def payloadNullName_def storedNull_def initialBooks_def Let_def)
  have r: "reachable [storedNull]"
    using reachable_add [OF reachable_initial, of "''idN''" "''t4''" "Some payloadNullName"]
    by (simp add: a)
  have n: "name storedNull \<noteq> Undefined"
    by (simp add: storedNull_def)
  have g: "getAllBooksController
             \<lparr>nameQuery = Some (QString ''a''), readingQuery = None, finishedQuery = None\<rparr>
             [storedNull] = fail 500 (ErrMessage TypeError)"
    by (simp add: getAllBooksController_def nameIncludes_def storedNull_def)
  from a r n g show ?thesis
    by simp
qed

end
